theory Spec2Isabelle
  imports Main "HOL-Library.Word"
begin

section \<open>Settings (src/src/Settings.h)\<close>

text \<open>
  The fields of \<^verbatim>\<open>struct Settings\<close> are C++ \<^verbatim>\<open>int\<close>s and \<^verbatim>\<open>std::string\<close>s. An
  \<^verbatim>\<open>int\<close> is a 32-bit word read in two's complement; the code only copies and compares
  these values (\<open><s\<close> and \<open>\<le>s\<close> are the signed comparisons of C++).
\<close>

type_synonym cint = "32 word"

record Settings =
  name :: string
  width :: cint
  height :: cint
  displayWidth :: cint
  displayHeight :: cint
  manifestPath :: string
  mainScript :: string
  onUpdate :: string
  webserver :: bool
  orientation :: string

text \<open>The constructor \<^verbatim>\<open>Settings::Settings()\<close>, Settings.h lines 24 to 34.\<close>

definition Settings_ctor :: Settings where
  "Settings_ctor =
     \<lparr> name = ''CGGameLoop'',
       width = 640,
       height = 360,
       displayWidth = 640,
       displayHeight = 360,
       manifestPath = ''manifest.lua'',
       mainScript = ''main.lua'',
       onUpdate = ''update()'',
       webserver = False,
       orientation = ''portrait'' \<rparr>"

section \<open>The dimension clamp (Dinodeck.cpp lines 111 to 127)\<close>

text \<open>
  \<^verbatim>\<open>if(mSettings.width > mSettings.displayWidth) mSettings.displayWidth = mSettings.width;\<close>
  and the same for the height. The two statements run in this order at the end of
  \<^verbatim>\<open>ReadInSettingsFile\<close>.
\<close>

definition clampDisplayWidth :: "Settings \<Rightarrow> Settings" where
  "clampDisplayWidth s =
     (if displayWidth s <s width s then s\<lparr>displayWidth := width s\<rparr> else s)"

definition clampDisplayHeight :: "Settings \<Rightarrow> Settings" where
  "clampDisplayHeight s =
     (if displayHeight s <s height s then s\<lparr>displayHeight := height s\<rparr> else s)"

definition clampDisplay :: "Settings \<Rightarrow> Settings" where
  "clampDisplay s = clampDisplayHeight (clampDisplayWidth s)"

section \<open>Collaborators whose code is not under src/\<close>

text \<open>
  \<^verbatim>\<open>Dinodeck.cpp\<close> calls into \<^verbatim>\<open>LuaState\<close>, \<^verbatim>\<open>DDFile\<close>, \<^verbatim>\<open>AssetStore\<close>, \<^verbatim>\<open>Asset\<close>,
  \<^verbatim>\<open>ManifestAssetStore\<close>, \<^verbatim>\<open>Game\<close>, \<^verbatim>\<open>FrameBuffer\<close> and \<^verbatim>\<open>IScreenChangeListener\<close>.
  None of them is under src/. Each is modelled at its interface, from the specification,
  and what the outside world decides (the files on disk, what a Lua file parses to, what
  reloading the manifest's assets does) is a parameter: the record \<open>World\<close>.
\<close>

type_synonym time_t = int

subsection \<open>LuaState\<close>

text \<open>
  Modelled from the spec: \<^verbatim>\<open>LuaState\<close> is not under src/. The specification (section 6)
  describes it as typed getters \<^verbatim>\<open>GetString(key, default)\<close>, \<^verbatim>\<open>GetInt(key, default)\<close>
  and \<^verbatim>\<open>GetBoolean(key, default)\<close> over a parsed key/value document. A parsed document
  is what each getter finds under each key; a key the document omits gives the default.
\<close>

record LuaState =
  stringValues :: "string \<rightharpoonup> string"
  intValues :: "string \<rightharpoonup> cint"
  booleanValues :: "string \<rightharpoonup> bool"

definition GetString :: "LuaState \<Rightarrow> string \<Rightarrow> string \<Rightarrow> string" where
  "GetString L key dflt = (case stringValues L key of None \<Rightarrow> dflt | Some v \<Rightarrow> v)"

definition GetInt :: "LuaState \<Rightarrow> string \<Rightarrow> cint \<Rightarrow> cint" where
  "GetInt L key dflt = (case intValues L key of None \<Rightarrow> dflt | Some v \<Rightarrow> v)"

definition GetBoolean :: "LuaState \<Rightarrow> string \<Rightarrow> bool \<Rightarrow> bool" where
  "GetBoolean L key dflt = (case booleanValues L key of None \<Rightarrow> dflt | Some v \<Rightarrow> v)"

subsection \<open>Asset\<close>

text \<open>
  Modelled from the spec: \<^verbatim>\<open>Asset\<close> is not under src/. A resource has a name, a
  category, a path and the timestamp of its last successful load, which starts at
  "never loaded" (\<open>None\<close>). \<^verbatim>\<open>SetTimeLastModified\<close> stores a timestamp.
\<close>

datatype AssetType = Script | Texture | Font | Sound | SoundStream

record Asset =
  assetName :: string
  assetType :: AssetType
  assetPath :: string
  mTimeLastModified :: "time_t option"

definition Path :: "Asset \<Rightarrow> string" where
  "Path a = assetPath a"

definition SetTimeLastModified :: "time_t \<Rightarrow> Asset \<Rightarrow> Asset" where
  "SetTimeLastModified t a = a\<lparr>mTimeLastModified := Some t\<rparr>"

subsection \<open>Game\<close>

text \<open>
  Modelled from the spec: \<^verbatim>\<open>Game\<close> is not under src/. The specification (sections 3 and
  4.4) gives it a run state among NotStarted, Running and Broken, a flag \<open>isReady\<close> and
  a counter \<open>reloadCount\<close>. \<^verbatim>\<open>Break\<close> moves to Broken; \<^verbatim>\<open>Reset\<close> is the full
  application reset, which sets \<open>isReady\<close> and leaves the application running;
  \<^verbatim>\<open>ResetReloadCount\<close> puts the counter back to zero.
\<close>

datatype RunState = NotStarted | Running | Broken

record Game =
  mRunState :: RunState
  mReady :: bool
  mReloadCount :: nat

definition Game_ctor :: Game where
  "Game_ctor = \<lparr> mRunState = NotStarted, mReady = False, mReloadCount = 0 \<rparr>"

definition IsRunning :: "Game \<Rightarrow> bool" where
  "IsRunning g = (mRunState g = Running)"

definition IsReady :: "Game \<Rightarrow> bool" where
  "IsReady g = mReady g"

definition GetReloadCount :: "Game \<Rightarrow> nat" where
  "GetReloadCount g = mReloadCount g"

definition ResetReloadCount :: "Game \<Rightarrow> Game" where
  "ResetReloadCount g = g\<lparr>mReloadCount := 0\<rparr>"

definition Break :: "Game \<Rightarrow> Game" where
  "Break g = g\<lparr>mRunState := Broken\<rparr>"

definition Reset :: "Game \<Rightarrow> Game" where
  "Reset g = g\<lparr>mRunState := Running, mReady := True\<rparr>"

subsection \<open>ManifestAssetStore\<close>

text \<open>
  Modelled from the spec: \<^verbatim>\<open>ManifestAssetStore\<close> is not under src/. The specification
  (sections 3, 4.2 and 4.3) gives it a registry of asset owners, one
  \<open>(category, owner, optionality)\<close> per category, the current manifest path and the
  assets it tracks, as \<open>(category, path)\<close> entries. The owners are the long-lived objects
  the \<^verbatim>\<open>Dinodeck\<close> constructor creates; the registry holds a reference to each.
\<close>

datatype AssetOwner = GameOwner | TextureManagerOwner | ManifestAssetStoreOwner | DDAudioOwner

datatype Requirement = Required | Optional

record ManifestAssetStore =
  mAssetOwners :: "(string \<times> AssetOwner \<times> Requirement) list"
  mManifest :: "string option"
  mAssets :: "(string \<times> string) list"

text \<open>
  Modelled from the spec: \<^verbatim>\<open>RegisterOwner(category, owner, optionality)\<close> fails (a
  configuration error, fatal at startup) if the category is already registered;
  otherwise it adds the registration. \<open>None\<close> is the fatal error.
\<close>

definition RegisterAssetOwner ::
  "string \<Rightarrow> AssetOwner \<Rightarrow> Requirement \<Rightarrow> ManifestAssetStore \<Rightarrow> ManifestAssetStore option" where
  "RegisterAssetOwner category owner req st =
     (if category \<in> set (map fst (mAssetOwners st)) then None
      else Some (st\<lparr>mAssetOwners := mAssetOwners st @ [(category, owner, req)]\<rparr>))"

text \<open>
  Modelled from the spec: \<^verbatim>\<open>Clear()\<close> unloads every currently tracked asset across
  every registered owner and empties the manifest, that is the tracked entries. The
  registry of owners stays.
\<close>

definition Clear :: "ManifestAssetStore \<Rightarrow> ManifestAssetStore" where
  "Clear st = st\<lparr>mAssets := []\<rparr>"

subsection \<open>The world outside\<close>

text \<open>
  \<open>files\<close> and \<open>modifiedTimeStamp\<close> are the file system, \<open>parseLua\<close> is what
  \<^verbatim>\<open>LuaState::DoFile\<close> makes of a file (\<open>None\<close> when it fails to parse), and
  \<open>reloadInternal\<close> is the manifest store's reload cascade (specification 4.3,
  \<^verbatim>\<open>ReloadInternal\<close>): it answers success or failure and may change the store and,
  through the owner of the scripts, the game.
\<close>

record World =
  files :: "string \<Rightarrow> bool"
  modifiedTimeStamp :: "string \<Rightarrow> time_t"
  parseLua :: "string \<Rightarrow> LuaState option"
  reloadInternal :: "ManifestAssetStore \<Rightarrow> Game \<Rightarrow> bool \<times> ManifestAssetStore \<times> Game"

text \<open>
  Modelled from the spec: \<^verbatim>\<open>DDFile::FileExists\<close> is not under src/. The specification
  (section 6) gives \<^verbatim>\<open>FileExists(path) -> bool\<close> and no more, so its answer for each
  path, the empty path included, is the world's.
\<close>

definition FileExists :: "World \<Rightarrow> string \<Rightarrow> bool" where
  "FileExists w path = files w path"

definition DoFile :: "World \<Rightarrow> string \<Rightarrow> LuaState option" where
  "DoFile w path = parseLua w path"

text \<open>
  Modelled from the spec: \<^verbatim>\<open>AssetStore\<close> is not under src/. Specification 4.1:
  \<^verbatim>\<open>GetModifiedTimeStamp\<close> returns the raw timestamp of the file system, and
  \<^verbatim>\<open>IsOutOfDate\<close> compares it strictly greater than the stored \<open>lastModified\<close>; a
  resource that has never been loaded is always out of date.
\<close>

definition GetModifiedTimeStamp :: "World \<Rightarrow> Asset \<Rightarrow> time_t" where
  "GetModifiedTimeStamp w a = modifiedTimeStamp w (Path a)"

definition IsOutOfDate :: "World \<Rightarrow> Asset \<Rightarrow> bool" where
  "IsOutOfDate w a =
     (case mTimeLastModified a of
        None \<Rightarrow> True
      | Some t \<Rightarrow> t < GetModifiedTimeStamp w a)"

text \<open>
  Modelled from the spec: \<^verbatim>\<open>Reload(path)\<close> records the path as current, then performs
  \<^verbatim>\<open>ReloadInternal()\<close>; \<^verbatim>\<open>Reload()\<close> without an argument does so against the last
  path and fails if no path was ever set.
\<close>

definition Reload_path ::
  "World \<Rightarrow> string \<Rightarrow> ManifestAssetStore \<Rightarrow> Game \<Rightarrow> bool \<times> ManifestAssetStore \<times> Game" where
  "Reload_path w path st g = reloadInternal w (st\<lparr>mManifest := Some path\<rparr>) g"

definition Reload ::
  "World \<Rightarrow> ManifestAssetStore \<Rightarrow> Game \<Rightarrow> bool \<times> ManifestAssetStore \<times> Game" where
  "Reload w st g =
     (case mManifest st of
        None \<Rightarrow> (False, st, g)
      | Some path \<Rightarrow> reloadInternal w st g)"

section \<open>Dinodeck (src/src/Dinodeck.cpp)\<close>

text \<open>
  The calls that the methods of \<^verbatim>\<open>Dinodeck\<close> make on the objects it holds. The field
  \<open>calls\<close> below is not a member of the class: it logs these calls in the order the
  code makes them, so that "is called", "is not called" and "exactly once" can be
  stated. A screen change listener is named by its address; what the listener and the
  frame buffer do when called is outside the class and changes none of its members.
\<close>

datatype Call =
    Call_Clear
  | Call_Reload "string option"
  | Call_Break
  | Call_Reset
  | Call_ResetReloadCount
  | Call_OnChange nat cint cint
  | Call_SetTimeLastModified time_t
  | Call_FrameBufferReset

text \<open>
  The members of the class that the reload logic reads or writes. A pointer that may be
  \<^verbatim>\<open>NULL\<close> is an \<open>option\<close>; \<^verbatim>\<open>mGame\<close>, \<^verbatim>\<open>mSettingsFile\<close> and the others that the
  constructor allocates are held by value.
\<close>

record Dinodeck =
  mName :: string
  mManifestAssetStore :: ManifestAssetStore
  mSettings :: Settings
  mSettingsFile :: Asset
  mGame :: Game
  mScreenChangeListener :: "nat option"
  calls :: "Call list"

definition logCall :: "Call \<Rightarrow> Dinodeck \<Rightarrow> Dinodeck" where
  "logCall c d = d\<lparr>calls := calls d @ [c]\<rparr>"

text \<open>The calls on members, each with its effect on the member and its log entry.\<close>

definition mManifestAssetStore_Clear :: "Dinodeck \<Rightarrow> Dinodeck" where
  "mManifestAssetStore_Clear d =
     logCall Call_Clear (d\<lparr>mManifestAssetStore := Clear (mManifestAssetStore d)\<rparr>)"

definition mGame_Break :: "Dinodeck \<Rightarrow> Dinodeck" where
  "mGame_Break d = logCall Call_Break (d\<lparr>mGame := Break (mGame d)\<rparr>)"

definition mGame_Reset :: "Dinodeck \<Rightarrow> Dinodeck" where
  "mGame_Reset d = logCall Call_Reset (d\<lparr>mGame := Reset (mGame d)\<rparr>)"

definition mGame_ResetReloadCount :: "Dinodeck \<Rightarrow> Dinodeck" where
  "mGame_ResetReloadCount d =
     logCall Call_ResetReloadCount (d\<lparr>mGame := ResetReloadCount (mGame d)\<rparr>)"

definition mManifestAssetStore_Reload_path :: "World \<Rightarrow> string \<Rightarrow> Dinodeck \<Rightarrow> bool \<times> Dinodeck" where
  "mManifestAssetStore_Reload_path w path d =
     (case Reload_path w path (mManifestAssetStore d) (mGame d) of
        (ok, st, g) \<Rightarrow>
          (ok, logCall (Call_Reload (Some path)) (d\<lparr>mManifestAssetStore := st, mGame := g\<rparr>)))"

definition mManifestAssetStore_Reload :: "World \<Rightarrow> Dinodeck \<Rightarrow> bool \<times> Dinodeck" where
  "mManifestAssetStore_Reload w d =
     (case Reload w (mManifestAssetStore d) (mGame d) of
        (ok, st, g) \<Rightarrow>
          (ok, logCall (Call_Reload None) (d\<lparr>mManifestAssetStore := st, mGame := g\<rparr>)))"

definition mSettingsFile_SetTimeLastModified :: "time_t \<Rightarrow> Dinodeck \<Rightarrow> Dinodeck" where
  "mSettingsFile_SetTimeLastModified t d =
     logCall (Call_SetTimeLastModified t)
       (d\<lparr>mSettingsFile := SetTimeLastModified t (mSettingsFile d)\<rparr>)"

definition mFrameBuffer_Reset :: "Dinodeck \<Rightarrow> Dinodeck" where
  "mFrameBuffer_Reset d = logCall Call_FrameBufferReset d"

text \<open>
  Modelled from the spec: \<^verbatim>\<open>SetName\<close> is declared in \<^verbatim>\<open>Dinodeck.h\<close>, which is not under
  src/. It stores the display name.
\<close>

definition SetName :: "string \<Rightarrow> Dinodeck \<Rightarrow> Dinodeck" where
  "SetName n d = d\<lparr>mName := n\<rparr>"

subsection \<open>The constructor, lines 23 to 45\<close>

text \<open>
  The five registrations in the order of the source. A registration that fails is fatal,
  so the constructor has a result only when all five succeed.

  Two things that the constructor uses are declared in \<^verbatim>\<open>ManifestAssetStore.h\<close>, which
  is not under src/, and are parameters here: \<open>dflt\<close>, the default of the third
  parameter of \<^verbatim>\<open>RegisterAssetOwner\<close>, which the call for \<^verbatim>\<open>scripts\<close> at line 37 leaves
  out; and \<open>st0\<close>, the store that the default constructor of \<^verbatim>\<open>ManifestAssetStore\<close>
  builds at line 25.
\<close>

definition Dinodeck_ctor :: "Requirement \<Rightarrow> ManifestAssetStore \<Rightarrow> string \<Rightarrow> Dinodeck option" where
  "Dinodeck_ctor dflt st0 nm =
     (case RegisterAssetOwner ''scripts'' GameOwner dflt st0 of
        None \<Rightarrow> None
      | Some st1 \<Rightarrow>
     (case RegisterAssetOwner ''textures'' TextureManagerOwner Optional st1 of
        None \<Rightarrow> None
      | Some st2 \<Rightarrow>
     (case RegisterAssetOwner ''fonts'' ManifestAssetStoreOwner Optional st2 of
        None \<Rightarrow> None
      | Some st3 \<Rightarrow>
     (case RegisterAssetOwner ''sounds'' DDAudioOwner Optional st3 of
        None \<Rightarrow> None
      | Some st4 \<Rightarrow>
     (case RegisterAssetOwner ''soundstreams'' DDAudioOwner Optional st4 of
        None \<Rightarrow> None
      | Some st5 \<Rightarrow>
          Some \<lparr> mName = nm,
                 mManifestAssetStore = st5,
                 mSettings = Settings_ctor,
                 mSettingsFile =
                   \<lparr> assetName = ''settings'', assetType = Script,
                     assetPath = ''settings.lua'', mTimeLastModified = None \<rparr>,
                 mGame = Game_ctor,
                 mScreenChangeListener = None,
                 calls = [] \<rparr>)))))"

subsection \<open>ReadInSettingsFile, lines 75 to 137\<close>

text \<open>
  Lines 100 to 127: the ten assignments, in the order of the source, then the clamp.
  \<^verbatim>\<open>display_width\<close> and \<^verbatim>\<open>display_height\<close> default to the width and height that the two
  lines before have just assigned.
\<close>

definition readSettings :: "LuaState \<Rightarrow> Settings \<Rightarrow> Settings" where
  "readSettings L s0 =
     (let s1 = s0\<lparr>name := GetString L ''name'' (name s0)\<rparr>;
          s2 = s1\<lparr>width := GetInt L ''width'' (width s1)\<rparr>;
          s3 = s2\<lparr>height := GetInt L ''height'' (height s2)\<rparr>;
          s4 = s3\<lparr>displayWidth := GetInt L ''display_width'' (width s3)\<rparr>;
          s5 = s4\<lparr>displayHeight := GetInt L ''display_height'' (height s4)\<rparr>;
          s6 = s5\<lparr>mainScript := GetString L ''main_script'' ''main.lua''\<rparr>;
          s7 = s6\<lparr>onUpdate := GetString L ''on_update'' ''update()''\<rparr>;
          s8 = s7\<lparr>manifestPath := GetString L ''manifest'' ''''\<rparr>;
          s9 = s8\<lparr>webserver := GetBoolean L ''webserver'' False\<rparr>;
          s10 = s9\<lparr>orientation := GetString L ''orientation'' ''portrait''\<rparr>
      in clampDisplay s10)"

definition ReadInSettingsFile :: "World \<Rightarrow> string \<Rightarrow> Dinodeck \<Rightarrow> bool \<times> Dinodeck" where
  "ReadInSettingsFile w path d =
     (if \<not> FileExists w path then (False, mManifestAssetStore_Clear d)
      else
        (case DoFile w path of
           None \<Rightarrow> (False, d)
         | Some L \<Rightarrow>
             (let d1 = d\<lparr>mSettings := readSettings L (mSettings d)\<rparr>
              in (True, SetName (name (mSettings d1)) d1))))"

subsection \<open>ResetRenderWindow, lines 390 to 414\<close>

text \<open>
  The parameters are \<^verbatim>\<open>unsigned int\<close>: the caller's \<^verbatim>\<open>int\<close> is converted and the
  assignment to the \<^verbatim>\<open>int\<close> field converts it back, which keeps the 32 bits. The
  OpenGL calls change nothing that the reload logic reads.
\<close>

definition ResetRenderWindow :: "cint \<Rightarrow> cint \<Rightarrow> Dinodeck \<Rightarrow> Dinodeck" where
  "ResetRenderWindow wd ht d =
     mFrameBuffer_Reset (d\<lparr>mSettings := (mSettings d)\<lparr>width := wd, height := ht\<rparr>\<rparr>)"

subsection \<open>OnAssetReload, lines 139 to 174\<close>

definition OnAssetReload :: "World \<Rightarrow> Asset \<Rightarrow> Dinodeck \<Rightarrow> bool \<times> Dinodeck" where
  "OnAssetReload w asset d =
     (case ReadInSettingsFile w (Path asset) d of
        (False, d1) \<Rightarrow> (False, mGame_Break d1)
      | (True, d1) \<Rightarrow>
          if \<not> FileExists w (manifestPath (mSettings d1))
          then (False, mGame_Break (mManifestAssetStore_Clear d1))
          else
            (let d2 = (case mScreenChangeListener d1 of
                         None \<Rightarrow> d1
                       | Some l \<Rightarrow>
                           logCall (Call_OnChange l (width (mSettings d1)) (height (mSettings d1))) d1);
                 d3 = ResetRenderWindow (width (mSettings d2)) (height (mSettings d2)) d2
             in (case mManifestAssetStore_Reload_path w (manifestPath (mSettings d3)) d3 of
                   (False, d4) \<Rightarrow> (False, mGame_Break d4)
                 | (True, d4) \<Rightarrow> (True, d4))))"

subsection \<open>ForceReload, lines 181 to 229\<close>

text \<open>
  Modelled from the spec: \<^verbatim>\<open>Asset::OnReload\<close> is not under src/. The settings asset is
  constructed with the \<^verbatim>\<open>Dinodeck\<close> object as its owner (line 34), and reloading an
  asset is its owner's \<^verbatim>\<open>OnAssetReload\<close>.
\<close>

definition mSettingsFile_OnReload :: "World \<Rightarrow> Dinodeck \<Rightarrow> bool \<times> Dinodeck" where
  "mSettingsFile_OnReload w d = OnAssetReload w (mSettingsFile d) d"

text \<open>
  Lines 184 to 208, the cascade: the value of \<^verbatim>\<open>resetSuccess\<close> and the state when line
  210 is reached.
\<close>

definition ForceReload_cascade :: "World \<Rightarrow> Dinodeck \<Rightarrow> bool \<times> Dinodeck" where
  "ForceReload_cascade w d =
     (let d1 = mGame_ResetReloadCount d
      in if IsOutOfDate w (mSettingsFile d1)
         then
           (case mSettingsFile_OnReload w d1 of
              (True, d2) \<Rightarrow>
                (let lastModified = GetModifiedTimeStamp w (mSettingsFile d2)
                 in (True, mFrameBuffer_Reset (mSettingsFile_SetTimeLastModified lastModified d2)))
            | (False, d2) \<Rightarrow> (False, d2))
         else mManifestAssetStore_Reload w d1)"

text \<open>Lines 210 to 228: the outcome of the cascade decides between Break, Reset and nothing.\<close>

definition ForceReload :: "World \<Rightarrow> Dinodeck \<Rightarrow> bool \<times> Dinodeck" where
  "ForceReload w d =
     (case ForceReload_cascade w d of
        (False, d2) \<Rightarrow> (False, mGame_Break d2)
      | (True, d2) \<Rightarrow>
          if GetReloadCount (mGame d2) > 0 \<or> \<not> IsRunning (mGame d2)
          then (True, mGame_Reset d2)
          else if \<not> IsReady (mGame d2)
          then (True, mGame_Reset d2)
          else (True, d2))"

section \<open>Reading the log of calls\<close>

fun isOnChange :: "Call \<Rightarrow> bool" where
  "isOnChange (Call_OnChange l wd ht) = True"
| "isOnChange c = False"

fun isSetTimeLastModified :: "Call \<Rightarrow> bool" where
  "isSetTimeLastModified (Call_SetTimeLastModified t) = True"
| "isSetTimeLastModified c = False"

section \<open>Example worlds\<close>

text \<open>
  A project directory with \<^verbatim>\<open>settings.lua\<close> and \<^verbatim>\<open>manifest.lua\<close>. The settings file
  has timestamp \<open>t\<close> and parses to \<open>doc\<close> (\<open>None\<close>: a syntax error). The manifest
  lists one script; the manifest store's reload cascade tracks it and answers
  \<open>reloads\<close>, and it leaves the game as it is (the script has not changed).
\<close>

definition exampleWorld :: "time_t \<Rightarrow> LuaState option \<Rightarrow> bool \<Rightarrow> World" where
  "exampleWorld t doc reloads =
     \<lparr> files = (\<lambda>p. p = ''settings.lua'' \<or> p = ''manifest.lua''),
       modifiedTimeStamp = (\<lambda>p. t),
       parseLua = (\<lambda>p. if p = ''settings.lua'' then doc else None),
       reloadInternal = (\<lambda>st g. (reloads, st\<lparr>mAssets := [(''scripts'', ''main.lua'')]\<rparr>, g)) \<rparr>"

text \<open>Settings documents: one names the manifest only, one also sets sizes.\<close>

definition exampleLua :: LuaState where
  "exampleLua =
     \<lparr> stringValues = [''manifest'' \<mapsto> ''manifest.lua''],
       intValues = Map.empty,
       booleanValues = Map.empty \<rparr>"

definition exampleLuaSizes :: "(string \<rightharpoonup> cint) \<Rightarrow> LuaState" where
  "exampleLuaSizes sizes =
     \<lparr> stringValues = [''manifest'' \<mapsto> ''manifest.lua''],
       intValues = sizes,
       booleanValues = Map.empty \<rparr>"

text \<open>A settings document that omits the manifest key.\<close>

definition exampleLuaNoManifest :: LuaState where
  "exampleLuaNoManifest =
     \<lparr> stringValues = [''name'' \<mapsto> ''demo''],
       intValues = Map.empty,
       booleanValues = Map.empty \<rparr>"

text \<open>The same world with other files on disk.\<close>

definition withFiles :: "string list \<Rightarrow> World \<Rightarrow> World" where
  "withFiles ps w = w\<lparr>files := (\<lambda>p. p \<in> set ps)\<rparr>"

text \<open>
  A store with nothing registered, no manifest path and no asset, and the state that the
  constructor leaves from it when a category registered without a third argument is
  required; then the same with a listener registered.
\<close>

definition exampleStore :: ManifestAssetStore where
  "exampleStore = \<lparr> mAssetOwners = [], mManifest = None, mAssets = [] \<rparr>"

definition exampleStart :: Dinodeck where
  "exampleStart = the (Dinodeck_ctor Required exampleStore ''game'')"

definition exampleListening :: Dinodeck where
  "exampleListening = exampleStart\<lparr>mScreenChangeListener := Some 1\<rparr>"

text \<open>
  A session: the first reload succeeds, then the settings file is saved with a syntax
  error and the next reload fails.
\<close>

definition exampleRunning :: Dinodeck where
  "exampleRunning = snd (ForceReload (exampleWorld 1 (Some exampleLua) True) exampleStart)"

definition exampleBroken :: Dinodeck where
  "exampleBroken = snd (ForceReload (exampleWorld 2 None True) exampleRunning)"

section \<open>Properties of the clamp\<close>

lemma clampDisplay_width [simp]: "width (clampDisplay s) = width s"
  by (simp add: clampDisplay_def clampDisplayHeight_def clampDisplayWidth_def)

lemma clampDisplay_height [simp]: "height (clampDisplay s) = height s"
  by (simp add: clampDisplay_def clampDisplayHeight_def clampDisplayWidth_def)

lemma clampDisplay_displayWidth:
  "displayWidth (clampDisplay s) =
     (if displayWidth s <s width s then width s else displayWidth s)"
  by (simp add: clampDisplay_def clampDisplayHeight_def clampDisplayWidth_def)

lemma clampDisplay_displayHeight:
  "displayHeight (clampDisplay s) =
     (if displayHeight s <s height s then height s else displayHeight s)"
  by (simp add: clampDisplay_def clampDisplayHeight_def clampDisplayWidth_def)

text \<open>
  Claim C8. The dimension clamp is idempotent: for every settings value (in particular
  for every tuple of width, height, displayWidth and displayHeight), applying the clamp
  that raises the display size to at least the surface size twice gives the same
  settings as applying it once.
\<close>

theorem C8_clamp_idempotent: "clampDisplay (clampDisplay s) = clampDisplay s"
  by (simp add: clampDisplay_def clampDisplayHeight_def clampDisplayWidth_def)

section \<open>The paths through the reload\<close>

lemmas call_defs = logCall_def mManifestAssetStore_Clear_def mGame_Break_def mGame_Reset_def
  mGame_ResetReloadCount_def mManifestAssetStore_Reload_path_def mManifestAssetStore_Reload_def
  mSettingsFile_SetTimeLastModified_def mFrameBuffer_Reset_def SetName_def

lemma readSettings_manifestPath [simp]:
  "manifestPath (readSettings L s) = GetString L ''manifest'' ''''"
  by (simp add: readSettings_def Let_def clampDisplay_def clampDisplayHeight_def clampDisplayWidth_def)

lemma readSettings_width [simp]:
  "width (readSettings L s) = GetInt L ''width'' (width s)"
  by (simp add: readSettings_def Let_def)

lemma readSettings_height [simp]:
  "height (readSettings L s) = GetInt L ''height'' (height s)"
  by (simp add: readSettings_def Let_def)

lemma ReadInSettingsFile_missing:
  "\<not> FileExists w path \<Longrightarrow>
   ReadInSettingsFile w path d = (False, mManifestAssetStore_Clear d)"
  by (simp add: ReadInSettingsFile_def)

lemma ReadInSettingsFile_unparsed:
  "FileExists w path \<Longrightarrow> DoFile w path = None \<Longrightarrow>
   ReadInSettingsFile w path d = (False, d)"
  by (simp add: ReadInSettingsFile_def)

lemma ReadInSettingsFile_success:
  "FileExists w path \<Longrightarrow> DoFile w path = Some L \<Longrightarrow>
   ReadInSettingsFile w path d =
     (True, d\<lparr>mSettings := readSettings L (mSettings d),
              mName := name (readSettings L (mSettings d))\<rparr>)"
  by (simp add: ReadInSettingsFile_def Let_def SetName_def)

text \<open>The four ways through OnAssetReload.\<close>

lemma OnAssetReload_missing:
  "\<not> FileExists w (Path a) \<Longrightarrow>
   OnAssetReload w a d = (False, mGame_Break (mManifestAssetStore_Clear d))"
  by (simp add: OnAssetReload_def ReadInSettingsFile_missing)

lemma OnAssetReload_unparsed:
  "FileExists w (Path a) \<Longrightarrow> DoFile w (Path a) = None \<Longrightarrow>
   OnAssetReload w a d = (False, mGame_Break d)"
  by (simp add: OnAssetReload_def ReadInSettingsFile_unparsed)

lemma OnAssetReload_no_manifest:
  "FileExists w (Path a) \<Longrightarrow> DoFile w (Path a) = Some L \<Longrightarrow>
   \<not> FileExists w (GetString L ''manifest'' '''') \<Longrightarrow>
   OnAssetReload w a d =
     (False, mGame_Break (mManifestAssetStore_Clear
        (d\<lparr>mSettings := readSettings L (mSettings d),
            mName := name (readSettings L (mSettings d))\<rparr>)))"
  by (simp add: OnAssetReload_def ReadInSettingsFile_success)

lemma OnAssetReload_calls_manifest:
  "FileExists w (Path a) \<Longrightarrow> DoFile w (Path a) = Some L \<Longrightarrow>
   FileExists w (GetString L ''manifest'' '''') \<Longrightarrow>
   \<exists>cs. calls (snd (OnAssetReload w a d)) =
     calls d @
     (case mScreenChangeListener d of
        None \<Rightarrow> []
      | Some l \<Rightarrow> [Call_OnChange l (GetInt L ''width'' (width (mSettings d)))
                      (GetInt L ''height'' (height (mSettings d)))]) @
     [Call_FrameBufferReset, Call_Reload (Some (GetString L ''manifest'' ''''))] @ cs \<and>
     set cs \<subseteq> {Call_Break} \<and>
     mSettingsFile (snd (OnAssetReload w a d)) = mSettingsFile d"
  by (auto simp: OnAssetReload_def ReadInSettingsFile_success Let_def call_defs
      ResetRenderWindow_def split: option.splits prod.splits bool.splits)

lemma OnAssetReload_mSettingsFile [simp]:
  "mSettingsFile (snd (OnAssetReload w a d)) = mSettingsFile d"
  by (auto simp: OnAssetReload_def ReadInSettingsFile_def Let_def call_defs
      ResetRenderWindow_def split: option.splits prod.splits bool.splits)

lemma OnAssetReload_no_SetTimeLastModified [simp]:
  "filter isSetTimeLastModified (calls (snd (OnAssetReload w a d))) =
   filter isSetTimeLastModified (calls d)"
  by (auto simp: OnAssetReload_def ReadInSettingsFile_def Let_def call_defs
      ResetRenderWindow_def split: option.splits prod.splits bool.splits)

lemma OnAssetReload_no_Reset [simp]:
  "count_list (calls (snd (OnAssetReload w a d))) Call_Reset = count_list (calls d) Call_Reset"
  by (auto simp: OnAssetReload_def ReadInSettingsFile_def Let_def call_defs
      ResetRenderWindow_def split: option.splits prod.splits bool.splits)

lemma ForceReload_cascade_no_Reset:
  "count_list (calls (snd (ForceReload_cascade w d))) Call_Reset = count_list (calls d) Call_Reset"
proof (cases "IsOutOfDate w (mSettingsFile d)")
  case True
  let ?d1 = "mGame_ResetReloadCount d"
  obtain ok d2 where r: "OnAssetReload w (mSettingsFile ?d1) ?d1 = (ok, d2)"
    by (cases "OnAssetReload w (mSettingsFile ?d1) ?d1") auto
  have "count_list (calls (snd (OnAssetReload w (mSettingsFile ?d1) ?d1))) Call_Reset
        = count_list (calls d) Call_Reset"
    by (simp add: mGame_ResetReloadCount_def logCall_def)
  then have n: "count_list (calls d2) Call_Reset = count_list (calls d) Call_Reset"
    by (simp add: r)
  have o: "IsOutOfDate w (mSettingsFile ?d1)"
    using True by (simp add: mGame_ResetReloadCount_def logCall_def)
  show ?thesis
    using n o r
    by (cases ok)
       (simp_all add: ForceReload_cascade_def Let_def mSettingsFile_OnReload_def
          mSettingsFile_SetTimeLastModified_def mFrameBuffer_Reset_def logCall_def)
next
  case False
  then show ?thesis
    by (auto simp: ForceReload_cascade_def Let_def call_defs split: prod.splits)
qed

text \<open>
  Claim C2, as amended. For every invocation of \<^verbatim>\<open>ForceReload\<close> whose settings and
  manifest cascade succeeds, \<^verbatim>\<open>ForceReload\<close> returns true and \<^verbatim>\<open>Game::Reset\<close> is
  performed, exactly once, if and only if after the cascade \<open>reloadCount > 0\<close>, or the
  game is not running, or \<open>isReady\<close> is false. In every other successful case the
  state is left as the cascade left it: no reset occurs.
\<close>

theorem C2_reset_decision:
  assumes "fst (ForceReload_cascade w d)"
  shows "fst (ForceReload w d) \<and>
         snd (ForceReload w d) =
           (if 0 < GetReloadCount (mGame (snd (ForceReload_cascade w d))) \<or>
               \<not> IsRunning (mGame (snd (ForceReload_cascade w d))) \<or>
               \<not> IsReady (mGame (snd (ForceReload_cascade w d)))
            then mGame_Reset (snd (ForceReload_cascade w d))
            else snd (ForceReload_cascade w d)) \<and>
         count_list (calls (snd (ForceReload w d))) Call_Reset =
           count_list (calls d) Call_Reset +
           (if 0 < GetReloadCount (mGame (snd (ForceReload_cascade w d))) \<or>
               \<not> IsRunning (mGame (snd (ForceReload_cascade w d))) \<or>
               \<not> IsReady (mGame (snd (ForceReload_cascade w d)))
            then 1 else 0)"
proof -
  obtain d2 where c: "ForceReload_cascade w d = (True, d2)"
    using assms by (cases "ForceReload_cascade w d") auto
  have n: "count_list (calls d2) Call_Reset = count_list (calls d) Call_Reset"
    using ForceReload_cascade_no_Reset [of w d] c by simp
  show ?thesis
    using n by (simp add: ForceReload_def c mGame_Reset_def logCall_def)
qed

text \<open>
  Claim C4. The stored timestamp of the settings resource is updated only when its reload
  succeeds: in every invocation of \<^verbatim>\<open>ForceReload\<close> where the settings file is out of
  date but its reload fails, \<^verbatim>\<open>ForceReload\<close> returns false,
  \<^verbatim>\<open>SetTimeLastModified\<close> is not called, the settings asset with its stored timestamp
  is left as it was, and the resource is out of date again at the next check.
\<close>

theorem C4_timestamp_kept:
  assumes "IsOutOfDate w (mSettingsFile d)"
    and "\<not> fst (mSettingsFile_OnReload w (mGame_ResetReloadCount d))"
  shows "\<not> fst (ForceReload w d) \<and>
         mSettingsFile (snd (ForceReload w d)) = mSettingsFile d \<and>
         filter isSetTimeLastModified (calls (snd (ForceReload w d))) =
           filter isSetTimeLastModified (calls d) \<and>
         IsOutOfDate w (mSettingsFile (snd (ForceReload w d)))"
proof -
  let ?d1 = "mGame_ResetReloadCount d"
  obtain d2 where r: "mSettingsFile_OnReload w ?d1 = (False, d2)"
    using assms(2) by (cases "mSettingsFile_OnReload w ?d1") auto
  have d1: "mSettingsFile ?d1 = mSettingsFile d"
    "filter isSetTimeLastModified (calls ?d1) = filter isSetTimeLastModified (calls d)"
    by (simp_all add: mGame_ResetReloadCount_def logCall_def)
  have d2: "d2 = snd (OnAssetReload w (mSettingsFile ?d1) ?d1)"
    using r by (simp add: mSettingsFile_OnReload_def)
  have k: "mSettingsFile d2 = mSettingsFile d"
    "filter isSetTimeLastModified (calls d2) = filter isSetTimeLastModified (calls d)"
    unfolding d2 using d1 by simp_all
  have c: "ForceReload_cascade w d = (False, d2)"
    using assms(1) r d1 by (simp add: ForceReload_cascade_def Let_def)
  have f: "ForceReload w d = (False, mGame_Break d2)"
    by (simp add: ForceReload_def c)
  show ?thesis
    using k assms(1) by (simp add: f mGame_Break_def logCall_def)
qed

lemma readSettings_displayWidth:
  "displayWidth (readSettings L s) =
     (let dw = GetInt L ''display_width'' (GetInt L ''width'' (width s))
      in if dw <s GetInt L ''width'' (width s) then GetInt L ''width'' (width s) else dw)"
  by (simp add: readSettings_def Let_def clampDisplay_displayWidth)

lemma readSettings_displayHeight:
  "displayHeight (readSettings L s) =
     (let dh = GetInt L ''display_height'' (GetInt L ''height'' (height s))
      in if dh <s GetInt L ''height'' (height s) then GetInt L ''height'' (height s) else dh)"
  by (simp add: readSettings_def Let_def clampDisplay_displayHeight)

lemma ReadInSettingsFile_succeeds:
  "fst (ReadInSettingsFile w path d) \<Longrightarrow> \<exists>L. FileExists w path \<and> DoFile w path = Some L"
  by (auto simp: ReadInSettingsFile_def mManifestAssetStore_Clear_def split: if_splits option.splits)

text \<open>
  Claim C1. For every reload in which the settings file does not exist on disk, or in
  which the settings file parses but the manifest path it names does not exist,
  \<^verbatim>\<open>OnAssetReload\<close> returns false, the manifest asset store tracks no asset any more
  (\<^verbatim>\<open>Clear\<close> is called, once) and the application is Broken (\<^verbatim>\<open>Break\<close> is called).
\<close>

theorem C1_config_missing:
  assumes "\<not> FileExists w (Path a) \<or>
           (FileExists w (Path a) \<and> DoFile w (Path a) = Some L \<and>
            \<not> FileExists w (GetString L ''manifest'' ''''))"
  shows "\<not> fst (OnAssetReload w a d) \<and>
         mAssets (mManifestAssetStore (snd (OnAssetReload w a d))) = [] \<and>
         mRunState (mGame (snd (OnAssetReload w a d))) = Broken \<and>
         calls (snd (OnAssetReload w a d)) = calls d @ [Call_Clear, Call_Break]"
  using assms
proof
  assume "\<not> FileExists w (Path a)"
  then show ?thesis
    by (simp add: OnAssetReload_missing mGame_Break_def mManifestAssetStore_Clear_def
        logCall_def Clear_def Break_def)
next
  assume "FileExists w (Path a) \<and> DoFile w (Path a) = Some L \<and>
            \<not> FileExists w (GetString L ''manifest'' '''')"
  then show ?thesis
    by (simp add: OnAssetReload_no_manifest mGame_Break_def mManifestAssetStore_Clear_def
        logCall_def Clear_def Break_def)
qed

text \<open>
  Claim C3. For every settings file that exists on disk but fails to parse,
  \<^verbatim>\<open>ReadInSettingsFile\<close> returns false and leaves the whole state as it was: every
  settings field keeps its previous value, the manifest asset store is not cleared, and
  no call is made on any collaborator.
\<close>

theorem C3_parse_failure:
  assumes "FileExists w path" and "DoFile w path = None"
  shows "ReadInSettingsFile w path d = (False, d) \<and>
         mSettings (snd (ReadInSettingsFile w path d)) = mSettings d \<and>
         mManifestAssetStore (snd (ReadInSettingsFile w path d)) = mManifestAssetStore d \<and>
         calls (snd (ReadInSettingsFile w path d)) = calls d"
  using assms by (simp add: ReadInSettingsFile_unparsed)

text \<open>
  Claim C5. After every successful \<^verbatim>\<open>ReadInSettingsFile\<close>, \<open>displayWidth \<ge> width\<close> and
  \<open>displayHeight \<ge> height\<close> hold (as signed integers). The surface dimensions are the
  values read, never changed by the clamp; a display dimension is the value read when
  that is at least the surface dimension, and the surface dimension otherwise.
\<close>

theorem C5_display_at_least_surface:
  assumes "fst (ReadInSettingsFile w path d)"
  shows "width (mSettings (snd (ReadInSettingsFile w path d)))
           \<le>s displayWidth (mSettings (snd (ReadInSettingsFile w path d))) \<and>
         height (mSettings (snd (ReadInSettingsFile w path d)))
           \<le>s displayHeight (mSettings (snd (ReadInSettingsFile w path d))) \<and>
         (\<exists>L. DoFile w path = Some L \<and>
            width (mSettings (snd (ReadInSettingsFile w path d))) =
              GetInt L ''width'' (width (mSettings d)) \<and>
            height (mSettings (snd (ReadInSettingsFile w path d))) =
              GetInt L ''height'' (height (mSettings d)) \<and>
            displayWidth (mSettings (snd (ReadInSettingsFile w path d))) =
              (let wd = GetInt L ''width'' (width (mSettings d));
                   dw = GetInt L ''display_width'' wd
               in if dw <s wd then wd else dw) \<and>
            displayHeight (mSettings (snd (ReadInSettingsFile w path d))) =
              (let ht = GetInt L ''height'' (height (mSettings d));
                   dh = GetInt L ''display_height'' ht
               in if dh <s ht then ht else dh))"
proof -
  from ReadInSettingsFile_succeeds [OF assms]
  obtain L where ex: "FileExists w path" and L: "DoFile w path = Some L"
    by blast
  have s: "mSettings (snd (ReadInSettingsFile w path d)) = readSettings L (mSettings d)"
    by (simp add: ReadInSettingsFile_success [OF ex L])
  have ge: "width (readSettings L (mSettings d)) \<le>s displayWidth (readSettings L (mSettings d))"
    "height (readSettings L (mSettings d)) \<le>s displayHeight (readSettings L (mSettings d))"
    by (auto simp: readSettings_displayWidth readSettings_displayHeight Let_def)
  show ?thesis
    using ge L by (simp add: s readSettings_displayWidth readSettings_displayHeight Let_def)
qed


text \<open>
  Claim C7. For every settings document that sets \<^verbatim>\<open>width = 800\<close> and
  \<^verbatim>\<open>height = 480\<close> and omits \<^verbatim>\<open>display_width\<close> and \<^verbatim>\<open>display_height\<close>, a successful
  \<^verbatim>\<open>ReadInSettingsFile\<close> yields display dimensions 800 by 480, whatever the display
  dimensions were before.
\<close>

theorem C7_display_defaults_to_surface:
  assumes "FileExists w path" and "DoFile w path = Some L"
    and "intValues L ''width'' = Some 800" and "intValues L ''height'' = Some 480"
    and "intValues L ''display_width'' = None" and "intValues L ''display_height'' = None"
  shows "fst (ReadInSettingsFile w path d) \<and>
         width (mSettings (snd (ReadInSettingsFile w path d))) = 800 \<and>
         height (mSettings (snd (ReadInSettingsFile w path d))) = 480 \<and>
         displayWidth (mSettings (snd (ReadInSettingsFile w path d))) = 800 \<and>
         displayHeight (mSettings (snd (ReadInSettingsFile w path d))) = 480"
  using assms(3-6)
  by (simp add: ReadInSettingsFile_success [OF assms(1,2)] readSettings_displayWidth
      readSettings_displayHeight GetInt_def)

text \<open>
  Claim C9, as amended. During each \<^verbatim>\<open>OnAssetReload\<close>, the \<^verbatim>\<open>OnChange\<close> of a registered
  screen change listener is invoked exactly once, with the surface width and height just
  read, when the settings file exists and parses and the manifest file it names exists,
  whether or not the size differs from the previous one and whether or not the reload
  of the manifest store that follows succeeds. It is not invoked when the settings file
  is missing or fails to parse, when the manifest file is missing, or when no listener
  is registered.
\<close>

theorem C9_OnChange_calls:
  "filter isOnChange (calls (snd (OnAssetReload w a d))) =
   filter isOnChange (calls d) @
     (case mScreenChangeListener d of
        None \<Rightarrow> []
      | Some l \<Rightarrow>
          (case (if FileExists w (Path a) then DoFile w (Path a) else None) of
             None \<Rightarrow> []
           | Some L \<Rightarrow>
               if FileExists w (GetString L ''manifest'' '''')
               then [Call_OnChange l (GetInt L ''width'' (width (mSettings d)))
                       (GetInt L ''height'' (height (mSettings d)))]
               else []))"
proof (cases "FileExists w (Path a)")
  case False
  then show ?thesis
    by (simp add: OnAssetReload_missing call_defs split: option.splits)
next
  case ex: True
  show ?thesis
  proof (cases "DoFile w (Path a)")
    case None
    with ex show ?thesis
      by (simp add: OnAssetReload_unparsed call_defs split: option.splits)
  next
    case (Some L)
    show ?thesis
    proof (cases "FileExists w (GetString L ''manifest'' '''')")
      case False
      with ex Some show ?thesis
        by (simp add: OnAssetReload_no_manifest call_defs split: option.splits)
    next
      case True
      from OnAssetReload_calls_manifest [OF ex Some True, of d]
      obtain cs where "calls (snd (OnAssetReload w a d)) =
         calls d @
         (case mScreenChangeListener d of
            None \<Rightarrow> []
          | Some l \<Rightarrow> [Call_OnChange l (GetInt L ''width'' (width (mSettings d)))
                      (GetInt L ''height'' (height (mSettings d)))]) @
         [Call_FrameBufferReset, Call_Reload (Some (GetString L ''manifest'' ''''))] @ cs"
        and "set cs \<subseteq> {Call_Break}"
        by blast
      moreover from this(2) have "filter isOnChange cs = []"
        by (induction cs) auto
      ultimately show ?thesis
        using ex Some True by (simp split: option.splits)
    qed
  qed
qed


section \<open>The example session\<close>

lemmas collab_defs = Clear_def Break_def Reset_def ResetReloadCount_def IsRunning_def IsReady_def
  GetReloadCount_def Reload_def Reload_path_def SetTimeLastModified_def Path_def
  GetModifiedTimeStamp_def IsOutOfDate_def FileExists_def DoFile_def
  GetString_def GetInt_def GetBoolean_def

lemmas method_defs = ReadInSettingsFile_def readSettings_def clampDisplay_def
  clampDisplayHeight_def clampDisplayWidth_def ResetRenderWindow_def OnAssetReload_def
  mSettingsFile_OnReload_def ForceReload_cascade_def ForceReload_def Let_def

lemmas example_defs = exampleWorld_def exampleLua_def exampleLuaSizes_def
  exampleLuaNoManifest_def withFiles_def Settings_ctor_def Game_ctor_def

lemma exampleStart_eq:
  "exampleStart =
     \<lparr> mName = ''game'',
       mManifestAssetStore =
         \<lparr> mAssetOwners =
             [(''scripts'', GameOwner, Required),
              (''textures'', TextureManagerOwner, Optional),
              (''fonts'', ManifestAssetStoreOwner, Optional),
              (''sounds'', DDAudioOwner, Optional),
              (''soundstreams'', DDAudioOwner, Optional)],
           mManifest = None, mAssets = [] \<rparr>,
       mSettings = Settings_ctor,
       mSettingsFile =
         \<lparr> assetName = ''settings'', assetType = Script,
           assetPath = ''settings.lua'', mTimeLastModified = None \<rparr>,
       mGame = Game_ctor,
       mScreenChangeListener = None,
       calls = [] \<rparr>"
  by (simp add: exampleStart_def Dinodeck_ctor_def RegisterAssetOwner_def exampleStore_def)

lemma exampleRunning_eq:
  "exampleRunning =
     \<lparr> mName = ''CGGameLoop'',
       mManifestAssetStore =
         \<lparr> mAssetOwners =
             [(''scripts'', GameOwner, Required),
              (''textures'', TextureManagerOwner, Optional),
              (''fonts'', ManifestAssetStoreOwner, Optional),
              (''sounds'', DDAudioOwner, Optional),
              (''soundstreams'', DDAudioOwner, Optional)],
           mManifest = Some ''manifest.lua'', mAssets = [(''scripts'', ''main.lua'')] \<rparr>,
       mSettings = Settings_ctor,
       mSettingsFile =
         \<lparr> assetName = ''settings'', assetType = Script,
           assetPath = ''settings.lua'', mTimeLastModified = Some 1 \<rparr>,
       mGame = \<lparr> mRunState = Running, mReady = True, mReloadCount = 0 \<rparr>,
       mScreenChangeListener = None,
       calls =
         [Call_ResetReloadCount, Call_FrameBufferReset, Call_Reload (Some ''manifest.lua''),
          Call_SetTimeLastModified 1, Call_FrameBufferReset, Call_Reset] \<rparr>"
  by (simp add: exampleRunning_def exampleStart_eq method_defs call_defs collab_defs example_defs)

lemma exampleBroken_eq:
  "exampleBroken =
     exampleRunning
       \<lparr> mGame := \<lparr> mRunState = Broken, mReady = True, mReloadCount = 0 \<rparr>,
         calls := calls exampleRunning @ [Call_ResetReloadCount, Call_Break, Call_Break] \<rparr>"
  by (simp add: exampleBroken_def exampleRunning_eq method_defs call_defs collab_defs example_defs)

text \<open>
  Claim C2 as stated fails. In the example session the first reload has succeeded
  (\<open>isReady\<close> holds) and a later one has failed on a syntax error, which has left the
  game Broken. When the file is fixed, the cascade succeeds with \<open>isReady\<close> true and
  \<open>reloadCount = 0\<close>, and still \<^verbatim>\<open>ForceReload\<close> performs a reset, since the game is not
  running: the state of the game is not left untouched.
\<close>

theorem C2_counterexample:
  "fst (ForceReload_cascade (exampleWorld 3 (Some exampleLua) True) exampleBroken) \<and>
   IsReady (mGame exampleBroken) \<and>
   IsReady (mGame (snd (ForceReload_cascade (exampleWorld 3 (Some exampleLua) True) exampleBroken))) \<and>
   GetReloadCount (mGame (snd (ForceReload_cascade (exampleWorld 3 (Some exampleLua) True) exampleBroken))) = 0 \<and>
   count_list (calls (snd (ForceReload (exampleWorld 3 (Some exampleLua) True) exampleBroken))) Call_Reset =
     count_list (calls exampleBroken) Call_Reset + 1 \<and>
   mGame (snd (ForceReload (exampleWorld 3 (Some exampleLua) True) exampleBroken)) \<noteq>
     mGame (snd (ForceReload_cascade (exampleWorld 3 (Some exampleLua) True) exampleBroken))"
  by (simp add: exampleBroken_eq exampleRunning_eq method_defs call_defs collab_defs example_defs)

text \<open>
  Claim C2, witness: the first reload of the example session, which resets, and a second
  reload of the running game with nothing changed, which does not.
\<close>

theorem C2_reset_decision_witness:
  "fst (ForceReload_cascade (exampleWorld 1 (Some exampleLua) True) exampleStart) \<and>
   \<not> IsReady (mGame (snd (ForceReload_cascade (exampleWorld 1 (Some exampleLua) True) exampleStart))) \<and>
   count_list (calls (snd (ForceReload (exampleWorld 1 (Some exampleLua) True) exampleStart))) Call_Reset = 1 \<and>
   fst (ForceReload_cascade (exampleWorld 1 (Some exampleLua) True) exampleRunning) \<and>
   snd (ForceReload (exampleWorld 1 (Some exampleLua) True) exampleRunning) =
     snd (ForceReload_cascade (exampleWorld 1 (Some exampleLua) True) exampleRunning) \<and>
   count_list (calls (snd (ForceReload (exampleWorld 1 (Some exampleLua) True) exampleRunning))) Call_Reset =
     count_list (calls exampleRunning) Call_Reset"
proof -
  let ?w = "exampleWorld 1 (Some exampleLua) True"
  have h1: "fst (ForceReload_cascade ?w exampleStart)"
    by (simp add: exampleStart_eq method_defs call_defs collab_defs example_defs)
  have h2: "fst (ForceReload_cascade ?w exampleRunning)"
    by (simp add: exampleRunning_eq method_defs call_defs collab_defs example_defs)
  have g1: "mGame (snd (ForceReload_cascade ?w exampleStart)) = Game_ctor"
    by (simp add: exampleStart_eq method_defs call_defs collab_defs example_defs)
  have g2: "mGame (snd (ForceReload_cascade ?w exampleRunning)) =
      \<lparr> mRunState = Running, mReady = True, mReloadCount = 0 \<rparr>"
    by (simp add: exampleRunning_eq method_defs call_defs collab_defs example_defs)
  have c1: "calls exampleStart = []"
    by (simp add: exampleStart_eq)
  have r1: "\<not> IsReady (mGame (snd (ForceReload_cascade ?w exampleStart))) \<and>
      count_list (calls (snd (ForceReload ?w exampleStart))) Call_Reset = 1"
    using C2_reset_decision [OF h1, THEN conjunct2, THEN conjunct2]
    by (simp add: g1 c1 Game_ctor_def IsReady_def IsRunning_def GetReloadCount_def)
  have r2: "snd (ForceReload ?w exampleRunning) = snd (ForceReload_cascade ?w exampleRunning)"
    using C2_reset_decision [OF h2, THEN conjunct2, THEN conjunct1]
    by (simp add: g2 IsReady_def IsRunning_def GetReloadCount_def)
  have r3: "count_list (calls (snd (ForceReload ?w exampleRunning))) Call_Reset =
        count_list (calls exampleRunning) Call_Reset"
    using C2_reset_decision [OF h2, THEN conjunct2, THEN conjunct2]
    by (simp add: g2 IsReady_def IsRunning_def GetReloadCount_def)
  show ?thesis
    using h1 h2 r1 r2 r3 by blast
qed

text \<open>
  Claim C1, witness: the running example with its script loaded, first with the settings
  file deleted, then with the manifest file deleted.
\<close>

theorem C1_config_missing_witness:
  "mAssets (mManifestAssetStore exampleRunning) = [(''scripts'', ''main.lua'')] \<and>
   \<not> FileExists (withFiles [] (exampleWorld 2 (Some exampleLua) True))
       (Path (mSettingsFile exampleRunning)) \<and>
   \<not> fst (OnAssetReload (withFiles [] (exampleWorld 2 (Some exampleLua) True))
           (mSettingsFile exampleRunning) exampleRunning) \<and>
   mAssets (mManifestAssetStore (snd (OnAssetReload
       (withFiles [] (exampleWorld 2 (Some exampleLua) True))
       (mSettingsFile exampleRunning) exampleRunning))) = [] \<and>
   mRunState (mGame (snd (OnAssetReload
       (withFiles [] (exampleWorld 2 (Some exampleLua) True))
       (mSettingsFile exampleRunning) exampleRunning))) = Broken \<and>
   FileExists (withFiles [''settings.lua''] (exampleWorld 2 (Some exampleLua) True))
       (Path (mSettingsFile exampleRunning)) \<and>
   \<not> FileExists (withFiles [''settings.lua''] (exampleWorld 2 (Some exampleLua) True))
       ''manifest.lua'' \<and>
   \<not> fst (OnAssetReload (withFiles [''settings.lua''] (exampleWorld 2 (Some exampleLua) True))
           (mSettingsFile exampleRunning) exampleRunning) \<and>
   mAssets (mManifestAssetStore (snd (OnAssetReload
       (withFiles [''settings.lua''] (exampleWorld 2 (Some exampleLua) True))
       (mSettingsFile exampleRunning) exampleRunning))) = [] \<and>
   mRunState (mGame (snd (OnAssetReload
       (withFiles [''settings.lua''] (exampleWorld 2 (Some exampleLua) True))
       (mSettingsFile exampleRunning) exampleRunning))) = Broken"
proof -
  let ?a = "mSettingsFile exampleRunning"
  let ?wa = "withFiles [] (exampleWorld 2 (Some exampleLua) True)"
  let ?wb = "withFiles [''settings.lua''] (exampleWorld 2 (Some exampleLua) True)"
  have p: "Path ?a = ''settings.lua''"
    by (simp add: exampleRunning_eq Path_def)
  have l: "mAssets (mManifestAssetStore exampleRunning) = [(''scripts'', ''main.lua'')]"
    by (simp add: exampleRunning_eq)
  have a: "\<not> FileExists ?wa (Path ?a)"
    by (simp add: p FileExists_def example_defs)
  have b1: "FileExists ?wb (Path ?a)"
    by (simp add: p FileExists_def example_defs)
  have b2: "DoFile ?wb (Path ?a) = Some exampleLua"
    by (simp add: p DoFile_def example_defs)
  have b3: "GetString exampleLua ''manifest'' '''' = ''manifest.lua''"
    by (simp add: GetString_def example_defs)
  have b4: "\<not> FileExists ?wb ''manifest.lua''"
    by (simp add: FileExists_def example_defs)
  have ha: "\<not> FileExists ?wa (Path ?a) \<or>
      (FileExists ?wa (Path ?a) \<and> DoFile ?wa (Path ?a) = Some exampleLua \<and>
       \<not> FileExists ?wa (GetString exampleLua ''manifest'' ''''))"
    using a by simp
  have hb: "\<not> FileExists ?wb (Path ?a) \<or>
      (FileExists ?wb (Path ?a) \<and> DoFile ?wb (Path ?a) = Some exampleLua \<and>
       \<not> FileExists ?wb (GetString exampleLua ''manifest'' ''''))"
    using b1 b2 b4 by (simp add: b3)
  show ?thesis
    using l a b1 b4 C1_config_missing [OF ha, of exampleRunning]
      C1_config_missing [OF hb, of exampleRunning]
    by blast
qed

text \<open>Claim C3, witness: the running example, its settings file saved with a syntax error.\<close>

theorem C3_parse_failure_witness:
  "FileExists (exampleWorld 2 None True) ''settings.lua'' \<and>
   DoFile (exampleWorld 2 None True) ''settings.lua'' = None \<and>
   ReadInSettingsFile (exampleWorld 2 None True) ''settings.lua'' exampleRunning =
     (False, exampleRunning)"
proof -
  have h1: "FileExists (exampleWorld 2 None True) ''settings.lua''"
    by (simp add: FileExists_def example_defs)
  have h2: "DoFile (exampleWorld 2 None True) ''settings.lua'' = None"
    by (simp add: DoFile_def example_defs)
  show ?thesis
    using h1 h2 C3_parse_failure [OF h1 h2, of exampleRunning] by blast
qed

text \<open>
  Claim C4, witness: the running example, loaded at time 1; the settings file is saved
  at time 2 with a syntax error. The stored timestamp stays 1.
\<close>

theorem C4_timestamp_kept_witness:
  "IsOutOfDate (exampleWorld 2 None True) (mSettingsFile exampleRunning) \<and>
   mTimeLastModified (mSettingsFile exampleRunning) = Some 1 \<and>
   \<not> fst (ForceReload (exampleWorld 2 None True) exampleRunning) \<and>
   mTimeLastModified (mSettingsFile (snd (ForceReload (exampleWorld 2 None True) exampleRunning)))
     = Some 1 \<and>
   IsOutOfDate (exampleWorld 2 None True)
     (mSettingsFile (snd (ForceReload (exampleWorld 2 None True) exampleRunning)))"
proof -
  let ?w = "exampleWorld 2 None True"
  have t: "mTimeLastModified (mSettingsFile exampleRunning) = Some 1"
    by (simp add: exampleRunning_eq)
  have h1: "IsOutOfDate ?w (mSettingsFile exampleRunning)"
    by (simp add: exampleRunning_eq IsOutOfDate_def GetModifiedTimeStamp_def Path_def example_defs)
  have h2: "\<not> fst (mSettingsFile_OnReload ?w (mGame_ResetReloadCount exampleRunning))"
    by (simp add: exampleRunning_eq method_defs call_defs collab_defs example_defs)
  show ?thesis
    using t h1 C4_timestamp_kept [OF h1 h2] by simp
qed

text \<open>
  Claim C5, witness: a surface of 800 by 480 with a window of 320 by 1000. The window
  width is raised to 800 and the window height is kept.
\<close>

theorem C5_display_at_least_surface_witness:
  "fst (ReadInSettingsFile
     (exampleWorld 1 (Some (exampleLuaSizes
        [''width'' \<mapsto> 800, ''height'' \<mapsto> 480,
         ''display_width'' \<mapsto> 320, ''display_height'' \<mapsto> 1000])) True)
     ''settings.lua'' exampleStart) \<and>
   width (mSettings (snd (ReadInSettingsFile
     (exampleWorld 1 (Some (exampleLuaSizes
        [''width'' \<mapsto> 800, ''height'' \<mapsto> 480,
         ''display_width'' \<mapsto> 320, ''display_height'' \<mapsto> 1000])) True)
     ''settings.lua'' exampleStart))) = 800 \<and>
   displayWidth (mSettings (snd (ReadInSettingsFile
     (exampleWorld 1 (Some (exampleLuaSizes
        [''width'' \<mapsto> 800, ''height'' \<mapsto> 480,
         ''display_width'' \<mapsto> 320, ''display_height'' \<mapsto> 1000])) True)
     ''settings.lua'' exampleStart))) = 800 \<and>
   height (mSettings (snd (ReadInSettingsFile
     (exampleWorld 1 (Some (exampleLuaSizes
        [''width'' \<mapsto> 800, ''height'' \<mapsto> 480,
         ''display_width'' \<mapsto> 320, ''display_height'' \<mapsto> 1000])) True)
     ''settings.lua'' exampleStart))) = 480 \<and>
   displayHeight (mSettings (snd (ReadInSettingsFile
     (exampleWorld 1 (Some (exampleLuaSizes
        [''width'' \<mapsto> 800, ''height'' \<mapsto> 480,
         ''display_width'' \<mapsto> 320, ''display_height'' \<mapsto> 1000])) True)
     ''settings.lua'' exampleStart))) = 1000 \<and>
   width (mSettings (snd (ReadInSettingsFile
     (exampleWorld 1 (Some (exampleLuaSizes
        [''width'' \<mapsto> 800, ''height'' \<mapsto> 480,
         ''display_width'' \<mapsto> 320, ''display_height'' \<mapsto> 1000])) True)
     ''settings.lua'' exampleStart)))
   \<le>s displayWidth (mSettings (snd (ReadInSettingsFile
     (exampleWorld 1 (Some (exampleLuaSizes
        [''width'' \<mapsto> 800, ''height'' \<mapsto> 480,
         ''display_width'' \<mapsto> 320, ''display_height'' \<mapsto> 1000])) True)
     ''settings.lua'' exampleStart)))"
proof -
  let ?L = "exampleLuaSizes
        [''width'' \<mapsto> 800, ''height'' \<mapsto> 480,
         ''display_width'' \<mapsto> 320, ''display_height'' \<mapsto> 1000]"
  let ?w = "exampleWorld 1 (Some ?L) True"
  have e: "FileExists ?w ''settings.lua''"
    by (simp add: FileExists_def example_defs)
  have p: "DoFile ?w ''settings.lua'' = Some ?L"
    by (simp add: DoFile_def example_defs)
  have h: "fst (ReadInSettingsFile ?w ''settings.lua'' exampleStart)"
    by (simp add: ReadInSettingsFile_success [OF e p])
  have s: "mSettings (snd (ReadInSettingsFile ?w ''settings.lua'' exampleStart)) =
      readSettings ?L Settings_ctor"
    by (simp add: ReadInSettingsFile_success [OF e p] exampleStart_eq)
  have v: "width (readSettings ?L Settings_ctor) = 800"
    "height (readSettings ?L Settings_ctor) = 480"
    "displayWidth (readSettings ?L Settings_ctor) = 800"
    "displayHeight (readSettings ?L Settings_ctor) = 1000"
    by (simp_all add: readSettings_displayWidth readSettings_displayHeight GetInt_def
        example_defs word_sless_alt)
  show ?thesis
    using h v C5_display_at_least_surface [OF h, THEN conjunct1] by (simp add: s)
qed



text \<open>
  Claim C7, witness: the window was 1024 by 768; the settings file sets the surface to
  800 by 480 and no window size.
\<close>

theorem C7_display_defaults_to_surface_witness:
  "displayWidth (mSettings (exampleStart\<lparr>mSettings :=
      Settings_ctor\<lparr>displayWidth := 1024, displayHeight := 768\<rparr>\<rparr>)) = 1024 \<and>
   displayHeight (mSettings (exampleStart\<lparr>mSettings :=
      Settings_ctor\<lparr>displayWidth := 1024, displayHeight := 768\<rparr>\<rparr>)) = 768 \<and>
   fst (ReadInSettingsFile
     (exampleWorld 1 (Some (exampleLuaSizes [''width'' \<mapsto> 800, ''height'' \<mapsto> 480])) True)
     ''settings.lua''
     (exampleStart\<lparr>mSettings := Settings_ctor\<lparr>displayWidth := 1024, displayHeight := 768\<rparr>\<rparr>)) \<and>
   displayWidth (mSettings (snd (ReadInSettingsFile
     (exampleWorld 1 (Some (exampleLuaSizes [''width'' \<mapsto> 800, ''height'' \<mapsto> 480])) True)
     ''settings.lua''
     (exampleStart\<lparr>mSettings := Settings_ctor\<lparr>displayWidth := 1024, displayHeight := 768\<rparr>\<rparr>)))) = 800 \<and>
   displayHeight (mSettings (snd (ReadInSettingsFile
     (exampleWorld 1 (Some (exampleLuaSizes [''width'' \<mapsto> 800, ''height'' \<mapsto> 480])) True)
     ''settings.lua''
     (exampleStart\<lparr>mSettings := Settings_ctor\<lparr>displayWidth := 1024, displayHeight := 768\<rparr>\<rparr>)))) = 480"
proof -
  let ?L = "exampleLuaSizes [''width'' \<mapsto> 800, ''height'' \<mapsto> 480]"
  let ?w = "exampleWorld 1 (Some ?L) True"
  let ?d = "exampleStart\<lparr>mSettings := Settings_ctor\<lparr>displayWidth := 1024, displayHeight := 768\<rparr>\<rparr>"
  have h1: "FileExists ?w ''settings.lua''"
    by (simp add: FileExists_def example_defs)
  have h2: "DoFile ?w ''settings.lua'' = Some ?L"
    by (simp add: DoFile_def example_defs)
  have h3: "intValues ?L ''width'' = Some 800" "intValues ?L ''height'' = Some 480"
    "intValues ?L ''display_width'' = None" "intValues ?L ''display_height'' = None"
    by (simp_all add: exampleLuaSizes_def)
  have o: "displayWidth (mSettings ?d) = 1024" "displayHeight (mSettings ?d) = 768"
    by simp_all
  show ?thesis
    using o C7_display_defaults_to_surface [OF h1 h2 h3, of ?d] by blast
qed

text \<open>
  Claim C9 as stated fails. With a listener registered, a reload that succeeds and
  changes no setting at all still invokes \<^verbatim>\<open>OnChange\<close>; and a reload that fails, because
  the manifest store fails to reload, has invoked \<^verbatim>\<open>OnChange\<close> as well.
\<close>

theorem C9_counterexample:
  "fst (OnAssetReload (exampleWorld 1 (Some exampleLua) True)
         (mSettingsFile exampleListening) exampleListening) \<and>
   mSettings (snd (OnAssetReload (exampleWorld 1 (Some exampleLua) True)
         (mSettingsFile exampleListening) exampleListening)) = mSettings exampleListening \<and>
   filter isOnChange (calls exampleListening) = [] \<and>
   filter isOnChange (calls (snd (OnAssetReload (exampleWorld 1 (Some exampleLua) True)
         (mSettingsFile exampleListening) exampleListening))) = [Call_OnChange 1 640 360] \<and>
   \<not> fst (OnAssetReload (exampleWorld 1 (Some exampleLua) False)
         (mSettingsFile exampleListening) exampleListening) \<and>
   filter isOnChange (calls (snd (OnAssetReload (exampleWorld 1 (Some exampleLua) False)
         (mSettingsFile exampleListening) exampleListening))) = [Call_OnChange 1 640 360]"
  by (simp add: exampleListening_def exampleStart_eq method_defs call_defs collab_defs example_defs)



end
